theory Spec2Isabelle
  imports Main
begin

section \<open>The registration form component\<close>

text \<open>
  The component \<open>RegisterForm\<close> of \<open>src/RegisterForm.jsx\<close> keeps two pieces of hook
  state: the flag \<open>isRegistered\<close> and the object \<open>formData\<close>. A JavaScript object with
  text keys and text values is a partial map from keys to values; reading a key that the
  object does not own yields \<open>undefined\<close>.
\<close>

type_synonym form_data = "string \<rightharpoonup> string"

record state =
  isRegistered :: bool
  formData :: form_data

text \<open>The two \<open>useState\<close> initialisers (lines 4 to 9).\<close>

definition initial_formData :: form_data where
  "initial_formData = [''username'' \<mapsto> '''', ''email'' \<mapsto> '''', ''password'' \<mapsto> '''']"

definition initial_state :: state where
  "initial_state = \<lparr>isRegistered = False, formData = initial_formData\<rparr>"

subsection \<open>Handlers and their effects\<close>

text \<open>
  A handler runs a sequence of statements, each of which is one effect: a call on the
  event, a line on the console, or a request to replace a piece of hook state. The
  handler is modelled by the list of its effects in program order; the state after the
  handler is obtained by running the list.
\<close>

datatype effect =
    PreventDefault
  | ConsoleLog string form_data
  | SetIsRegistered bool
  | SetFormData "form_data \<Rightarrow> form_data"

text \<open>The part of a change event that the handler reads: \<open>e.target.name\<close> and \<open>e.target.value\<close>.\<close>

record target =
  name :: string
  value' :: string

text \<open>
  Lines 15 to 21. The new object spreads the previous one and then writes the computed
  key, so the key is added when absent and overwritten when present.
\<close>

definition handleChange :: "target \<Rightarrow> effect list" where
  "handleChange t = [SetFormData (\<lambda>prevData. prevData(name t \<mapsto> value' t))]"

text \<open>
  Lines 23 to 28. The handler closes over the \<open>formData\<close> of the render that created it,
  which is what the console line shows.
\<close>

definition handleSubmit :: "state \<Rightarrow> effect list" where
  "handleSubmit rendered =
     [PreventDefault,
      ConsoleLog ''Form submitted with:'' (formData rendered),
      SetIsRegistered True]"

fun apply_effect :: "effect \<Rightarrow> state \<Rightarrow> state" where
  "apply_effect PreventDefault s = s"
| "apply_effect (ConsoleLog _ _) s = s"
| "apply_effect (SetIsRegistered b) s = s\<lparr>isRegistered := b\<rparr>"
| "apply_effect (SetFormData f) s = s\<lparr>formData := f (formData s)\<rparr>"

definition run_effects :: "effect list \<Rightarrow> state \<Rightarrow> state" where
  "run_effects effs s = fold apply_effect effs s"

text \<open>
  The two events of the form. An event runs its handler on the current state; the
  handlers are applied here in any state, also one in which the form is no longer shown.
\<close>

datatype form_event = Change target | Submit

fun dispatch :: "state \<Rightarrow> form_event \<Rightarrow> state" where
  "dispatch s (Change t) = run_effects (handleChange t) s"
| "dispatch s Submit = run_effects (handleSubmit s) s"

definition session :: "state \<Rightarrow> form_event list \<Rightarrow> state" where
  "session s evs = foldl dispatch s evs"

subsection \<open>The rendered view\<close>

text \<open>
  The component returns a tree of elements. An element has a tag, its props in the order
  written, and its children; a prop is a text, the bare flag \<open>true\<close>, \<open>undefined\<close>, or
  one of the two handlers.
\<close>

datatype handler = HandleChange | HandleSubmit

datatype jsx_prop = PStr string | PTrue | PUndefined | PHandler handler

datatype node = Text string | Element string "(string \<times> jsx_prop) list" "node list"

text \<open>Reading a property of \<open>formData\<close> in a prop position: \<open>formData.username\<close>.\<close>

definition js_get :: "form_data \<Rightarrow> string \<Rightarrow> jsx_prop" where
  "js_get obj k = (case obj k of None \<Rightarrow> PUndefined | Some v \<Rightarrow> PStr v)"

text \<open>
  Lines 11 to 13 and 30 to 76. Whitespace between two tags that holds a line break is
  dropped; the explicit \<open>{" "}\<close> after the third field is a text child.
\<close>

definition RegisterForm :: "state \<Rightarrow> node" where
  "RegisterForm s =
     (if isRegistered s then
        Element ''h4'' [] [Text ''Registration successful! Welcome aboard!'']
      else
        Element ''div'' [(''className'', PStr ''card'')]
          [Element ''form'' [(''onSubmit'', PHandler HandleSubmit)]
            [Element ''div'' []
               [Element ''label'' [(''htmlFor'', PStr ''username'')] [Text ''Username''],
                Element ''br'' [] [],
                Element ''input''
                  [(''type'', PStr ''text''),
                   (''id'', PStr ''username''),
                   (''name'', PStr ''username''),
                   (''placeholder'', PStr ''username''),
                   (''value'', js_get (formData s) ''username''),
                   (''onChange'', PHandler HandleChange),
                   (''required'', PTrue)] []],
             Element ''div'' []
               [Element ''label'' [(''htmlFor'', PStr ''email'')] [Text ''Email''],
                Element ''br'' [] [],
                Element ''input''
                  [(''type'', PStr ''email''),
                   (''id'', PStr ''email''),
                   (''name'', PStr ''email''),
                   (''placeholder'', PStr ''email''),
                   (''value'', js_get (formData s) ''email''),
                   (''onChange'', PHandler HandleChange),
                   (''required'', PTrue)] []],
             Element ''div'' []
               [Element ''label'' [(''htmlFor'', PStr ''password'')] [Text ''Password''],
                Element ''br'' [] [],
                Element ''input''
                  [(''type'', PStr ''password''),
                   (''id'', PStr ''password''),
                   (''name'', PStr ''password''),
                   (''placeholder'', PStr ''password''),
                   (''value'', js_get (formData s) ''password''),
                   (''onChange'', PHandler HandleChange),
                   (''required'', PTrue)] []],
             Text '' '',
             Element ''br'' [] [],
             Element ''button'' [(''type'', PStr ''submit'')] [Text ''Register'']]])"

subsection \<open>Reading a rendered tree\<close>

text \<open>All elements with a given tag, in document order, and all text, in document order.\<close>

fun elements_named :: "string \<Rightarrow> node \<Rightarrow> node list" where
  "elements_named tag (Text _) = []"
| "elements_named tag (Element tg ps cs) =
     (if tg = tag then [Element tg ps cs] else []) @ concat (map (elements_named tag) cs)"

fun texts :: "node \<Rightarrow> string list" where
  "texts (Text t) = [t]"
| "texts (Element _ _ cs) = concat (map texts cs)"

fun attr :: "string \<Rightarrow> node \<Rightarrow> jsx_prop option" where
  "attr k (Text _) = None"
| "attr k (Element _ ps _) = map_of ps k"

text \<open>Every text that occurs as the value of a prop somewhere in the tree.\<close>

fun prop_texts :: "node \<Rightarrow> string list" where
  "prop_texts (Text _) = []"
| "prop_texts (Element _ ps cs) =
     concat (map (\<lambda>(_, p). case p of PStr v \<Rightarrow> [v] | _ \<Rightarrow> []) ps) @ concat (map prop_texts cs)"

section \<open>Basic facts about the handlers\<close>

lemma run_handleChange:
  "run_effects (handleChange t) s = s\<lparr>formData := (formData s)(name t \<mapsto> value' t)\<rparr>"
  by (simp add: run_effects_def handleChange_def)

lemma run_handleSubmit:
  "run_effects (handleSubmit r) s = s\<lparr>isRegistered := True\<rparr>"
  by (simp add: run_effects_def handleSubmit_def)

lemma session_Nil: "session s [] = s"
  by (simp add: session_def)

lemma session_snoc: "session s (evs @ [ev]) = dispatch (session s evs) ev"
  by (simp add: session_def)

lemma session_Cons: "session s (ev # evs) = session (dispatch s ev) evs"
  by (simp add: session_def)

lemma dispatch_registered: "isRegistered s \<Longrightarrow> isRegistered (dispatch s ev)"
  by (cases ev) (simp_all add: run_handleChange run_handleSubmit)

lemma session_registered: "isRegistered s \<Longrightarrow> isRegistered (session s evs)"
proof (induction evs arbitrary: s)
  case Nil
  then show ?case by (simp add: session_Nil)
next
  case (Cons ev evs)
  from Cons.prems have "isRegistered (dispatch s ev)"
    by (rule dispatch_registered)
  then show ?case
    by (simp add: session_Cons Cons.IH)
qed

lemma RegisterForm_registered:
  "isRegistered s \<Longrightarrow>
   RegisterForm s = Element ''h4'' [] [Text ''Registration successful! Welcome aboard!'']"
  by (simp add: RegisterForm_def)

section \<open>Field updates\<close>

text \<open>
  Claim C1. Take any state and any sequence of change events whose names are among
  \<open>username\<close>, \<open>email\<close> and \<open>password\<close>, with arbitrary values. For the call number \<open>i\<close> of
  the sequence, the state before it is the one reached by the first \<open>i\<close> events and the
  state after it the one reached by the first \<open>i + 1\<close>. Each of the three fields other
  than the one the call names has the same value after the call as before it.
\<close>

theorem handleChange_field_local:
  assumes names: "\<forall>t \<in> set ts. name t \<in> {''username'', ''email'', ''password''}"
    and i: "i < length ts"
    and f: "f \<in> {''username'', ''email'', ''password''}"
    and other: "f \<noteq> name (ts ! i)"
  shows "formData (session s (map Change (take (Suc i) ts))) f =
         formData (session s (map Change (take i ts))) f"
proof -
  have "take (Suc i) ts = take i ts @ [ts ! i]"
    using i by (rule take_Suc_conv_app_nth)
  then have "session s (map Change (take (Suc i) ts)) =
             dispatch (session s (map Change (take i ts))) (Change (ts ! i))"
    by (simp add: session_snoc)
  then show ?thesis
    using other by (simp add: run_handleChange)
qed

theorem handleChange_field_local_witness:
  "formData (session initial_state (map Change
      [\<lparr>name = ''email'', value' = ''a@b.com''\<rparr>,
       \<lparr>name = ''username'', value' = ''alice''\<rparr>])) ''email'' =
   formData (session initial_state (map Change
      [\<lparr>name = ''email'', value' = ''a@b.com''\<rparr>])) ''email''"
  using handleChange_field_local [of
      "[\<lparr>name = ''email'', value' = ''a@b.com''\<rparr>,
        \<lparr>name = ''username'', value' = ''alice''\<rparr>]"
      1 "''email''" initial_state]
  by simp

text \<open>
  Claim C2. For a name outside \<open>username\<close>, \<open>email\<close> and \<open>password\<close> and any value, the
  handler still stores the value under that name in \<open>formData\<close>, and the three tracked
  fields and the flag keep their values. The handler has no failing branch: it is a
  total function of the event and the state.
\<close>

theorem handleChange_untracked_name:
  assumes "name t \<notin> {''username'', ''email'', ''password''}"
  shows "formData (run_effects (handleChange t) s) (name t) = Some (value' t) \<and>
         (\<forall>f \<in> {''username'', ''email'', ''password''}.
            formData (run_effects (handleChange t) s) f = formData s f) \<and>
         isRegistered (run_effects (handleChange t) s) = isRegistered s"
  using assms by (auto simp add: run_handleChange)

theorem handleChange_untracked_name_witness:
  "formData (run_effects (handleChange \<lparr>name = ''phone'', value' = ''555''\<rparr>) initial_state)
     ''phone'' = Some ''555'' \<and>
   formData (run_effects (handleChange \<lparr>name = ''phone'', value' = ''555''\<rparr>) initial_state)
     ''username'' = Some '''' \<and>
   formData (run_effects (handleChange \<lparr>name = ''phone'', value' = ''555''\<rparr>) initial_state)
     ''email'' = Some '''' \<and>
   formData (run_effects (handleChange \<lparr>name = ''phone'', value' = ''555''\<rparr>) initial_state)
     ''password'' = Some ''''"
  using handleChange_untracked_name [of "\<lparr>name = ''phone'', value' = ''555''\<rparr>" initial_state]
  by (simp add: initial_state_def initial_formData_def)

section \<open>Submission\<close>

text \<open>
  Claim C3. In a state whose flag is already true, running the submit handler (created
  by any render \<open>r\<close>) leaves the flag true and leaves \<open>formData\<close>, hence each of the three
  fields, unchanged; the state as a whole is the same.
\<close>

theorem handleSubmit_idempotent:
  assumes "isRegistered s"
  shows "isRegistered (run_effects (handleSubmit r) s) \<and>
         formData (run_effects (handleSubmit r) s) = formData s \<and>
         run_effects (handleSubmit r) s = s"
  using assms by (simp add: run_handleSubmit)

theorem handleSubmit_idempotent_witness:
  "run_effects (handleSubmit initial_state)
     (run_effects (handleSubmit initial_state) initial_state) =
   run_effects (handleSubmit initial_state) initial_state"
  using handleSubmit_idempotent
    [of "run_effects (handleSubmit initial_state) initial_state" initial_state]
  by (simp add: run_handleSubmit)

text \<open>
  Claim C4. The flag is one-way. From a state whose flag is true, any single event (a
  change with any name and value, or a submit) and any sequence of events lead to a
  state whose flag is true.
\<close>

theorem registered_one_way:
  assumes "isRegistered s"
  shows "isRegistered (dispatch s ev) \<and> isRegistered (session s evs)"
proof
  show "isRegistered (dispatch s ev)"
    using assms by (rule dispatch_registered)
  show "isRegistered (session s evs)"
    using assms by (rule session_registered)
qed

theorem registered_one_way_witness:
  "isRegistered (dispatch (dispatch initial_state Submit)
      (Change \<lparr>name = ''email'', value' = ''''\<rparr>)) \<and>
   isRegistered (session (dispatch initial_state Submit)
      [Change \<lparr>name = ''username'', value' = ''x''\<rparr>, Submit,
       Change \<lparr>name = ''other'', value' = ''y''\<rparr>])"
proof -
  have registered: "isRegistered (dispatch initial_state Submit)"
    by (simp add: run_handleSubmit)
  show ?thesis
    by (rule registered_one_way [OF registered])
qed

section \<open>The view\<close>

text \<open>
  Claim C5. When the flag is true the view is the \<open>h4\<close> element holding the fixed
  confirmation message and nothing else: its only text is the message, no prop carries a
  text, there is no input, no button and no form, and replacing \<open>formData\<close> by any other
  object gives the same view.
\<close>

theorem registered_view_is_confirmation:
  assumes "isRegistered s"
  shows "RegisterForm s = Element ''h4'' [] [Text ''Registration successful! Welcome aboard!''] \<and>
         texts (RegisterForm s) = [''Registration successful! Welcome aboard!''] \<and>
         prop_texts (RegisterForm s) = [] \<and>
         elements_named ''input'' (RegisterForm s) = [] \<and>
         elements_named ''button'' (RegisterForm s) = [] \<and>
         elements_named ''form'' (RegisterForm s) = [] \<and>
         (\<forall>fd. RegisterForm (s\<lparr>formData := fd\<rparr>) = RegisterForm s)"
  using assms by (simp add: RegisterForm_registered)

theorem registered_view_is_confirmation_witness:
  "RegisterForm \<lparr>isRegistered = True, formData = initial_formData\<rparr> =
     Element ''h4'' [] [Text ''Registration successful! Welcome aboard!''] \<and>
   texts (RegisterForm \<lparr>isRegistered = True, formData = initial_formData\<rparr>) =
     [''Registration successful! Welcome aboard!''] \<and>
   elements_named ''input''
     (RegisterForm \<lparr>isRegistered = True, formData = initial_formData\<rparr>) = []"
proof -
  have registered: "isRegistered \<lparr>isRegistered = True, formData = initial_formData\<rparr>"
    by simp
  show ?thesis
    using registered_view_is_confirmation [OF registered] by blast
qed

text \<open>
  Claim C6. From the initial state, the events change \<open>username\<close> to \<open>bob\<close>, change
  \<open>email\<close> to \<open>bob@x.com\<close>, change \<open>password\<close> to \<open>secret\<close>, submit, lead to the state
  with exactly these three fields and the flag true; the view of that state, and of every
  state reached from it by further events, is the confirmation message alone.
\<close>

theorem bob_scenario:
  "(let final = session initial_state
        [Change \<lparr>name = ''username'', value' = ''bob''\<rparr>,
         Change \<lparr>name = ''email'', value' = ''bob@x.com''\<rparr>,
         Change \<lparr>name = ''password'', value' = ''secret''\<rparr>,
         Submit]
    in final = \<lparr>isRegistered = True,
                 formData = [''username'' \<mapsto> ''bob'', ''email'' \<mapsto> ''bob@x.com'',
                             ''password'' \<mapsto> ''secret'']\<rparr> \<and>
       RegisterForm final =
         Element ''h4'' [] [Text ''Registration successful! Welcome aboard!''] \<and>
       (\<forall>evs. RegisterForm (session final evs) =
                Element ''h4'' [] [Text ''Registration successful! Welcome aboard!'']))"
proof -
  let ?final = "session initial_state
        [Change \<lparr>name = ''username'', value' = ''bob''\<rparr>,
         Change \<lparr>name = ''email'', value' = ''bob@x.com''\<rparr>,
         Change \<lparr>name = ''password'', value' = ''secret''\<rparr>,
         Submit]"
  have final: "?final = \<lparr>isRegistered = True,
                 formData = [''username'' \<mapsto> ''bob'', ''email'' \<mapsto> ''bob@x.com'',
                             ''password'' \<mapsto> ''secret'']\<rparr>"
    by (simp add: session_Cons session_Nil run_handleChange run_handleSubmit
          initial_state_def initial_formData_def fun_eq_iff)
  have registered: "isRegistered ?final"
    by (simp add: final)
  have "RegisterForm (session ?final evs) =
          Element ''h4'' [] [Text ''Registration successful! Welcome aboard!'']" for evs
    by (rule RegisterForm_registered [OF session_registered [OF registered]])
  then show ?thesis
    using final by (simp add: Let_def RegisterForm_registered)
qed

text \<open>
  Claim C7. When the flag is false the view has exactly three inputs, in this order:
  \<open>username\<close>, \<open>email\<close>, \<open>password\<close>. Each has its name as \<open>id\<close>, \<open>name\<close> and
  \<open>placeholder\<close>, is \<open>required\<close>, shows the field of \<open>formData\<close> with its name and sends
  its changes to the change handler, which writes that field; the \<open>type\<close> props are
  \<open>text\<close>, \<open>email\<close> and \<open>password\<close>. Each input has a label pointing at its \<open>id\<close>. There
  is exactly one button, of type \<open>submit\<close>, labelled \<open>Register\<close>, inside the one form
  whose submission runs the submit handler. The confirmation message is absent. With the
  initial state, the three inputs show the empty text.
\<close>

theorem editing_view_is_form:
  assumes "\<not> isRegistered s"
  shows "map (\<lambda>n. (attr ''type'' n, attr ''id'' n, attr ''name'' n, attr ''placeholder'' n,
                    attr ''required'' n, attr ''value'' n, attr ''onChange'' n))
           (elements_named ''input'' (RegisterForm s)) =
         [(Some (PStr ''text''), Some (PStr ''username''), Some (PStr ''username''),
           Some (PStr ''username''), Some PTrue, Some (js_get (formData s) ''username''),
           Some (PHandler HandleChange)),
          (Some (PStr ''email''), Some (PStr ''email''), Some (PStr ''email''),
           Some (PStr ''email''), Some PTrue, Some (js_get (formData s) ''email''),
           Some (PHandler HandleChange)),
          (Some (PStr ''password''), Some (PStr ''password''), Some (PStr ''password''),
           Some (PStr ''password''), Some PTrue, Some (js_get (formData s) ''password''),
           Some (PHandler HandleChange))] \<and>
         map (\<lambda>n. (attr ''htmlFor'' n, texts n)) (elements_named ''label'' (RegisterForm s)) =
         [(Some (PStr ''username''), [''Username'']),
          (Some (PStr ''email''), [''Email'']),
          (Some (PStr ''password''), [''Password''])] \<and>
         elements_named ''button'' (RegisterForm s) =
           [Element ''button'' [(''type'', PStr ''submit'')] [Text ''Register'']] \<and>
         map (attr ''onSubmit'') (elements_named ''form'' (RegisterForm s)) =
           [Some (PHandler HandleSubmit)] \<and>
         texts (RegisterForm s) = [''Username'', ''Email'', ''Password'', '' '', ''Register''] \<and>
         ''Registration successful! Welcome aboard!'' \<notin> set (texts (RegisterForm s)) \<and>
         elements_named ''h4'' (RegisterForm s) = [] \<and>
         (\<forall>f \<in> {''username'', ''email'', ''password''}. \<forall>v.
             (formData s f = Some v \<longrightarrow> js_get (formData s) f = PStr v) \<and>
             js_get (formData (dispatch s (Change \<lparr>name = f, value' = v\<rparr>))) f = PStr v) \<and>
         map (attr ''value'') (elements_named ''input'' (RegisterForm initial_state)) =
           [Some (PStr ''''), Some (PStr ''''), Some (PStr '''')]"
  using assms
  by (simp add: RegisterForm_def js_get_def initial_state_def initial_formData_def
        run_handleChange)

theorem editing_view_is_form_witness:
  "map (attr ''name'') (elements_named ''input'' (RegisterForm initial_state)) =
     [Some (PStr ''username''), Some (PStr ''email''), Some (PStr ''password'')] \<and>
   map (attr ''value'') (elements_named ''input'' (RegisterForm initial_state)) =
     [Some (PStr ''''), Some (PStr ''''), Some (PStr '''')] \<and>
   elements_named ''button'' (RegisterForm initial_state) =
     [Element ''button'' [(''type'', PStr ''submit'')] [Text ''Register'']]"
proof -
  have editing: "\<not> isRegistered initial_state"
    by (simp add: initial_state_def)
  have "map (attr ''name'') (elements_named ''input'' (RegisterForm initial_state)) =
     [Some (PStr ''username''), Some (PStr ''email''), Some (PStr ''password'')]"
    by (simp add: RegisterForm_def initial_state_def)
  then show ?thesis
    using editing_view_is_form [OF editing] by blast
qed

text \<open>
  Claim C8. In every run of the submit handler, whatever render \<open>r\<close> created it, the
  call that suppresses the default submission happens, the console line with the
  rendered \<open>formData\<close> is emitted and the flag is requested to be true, in this order:
  there are positions \<open>i < j < k\<close> of the handler's effects holding the three. Moreover
  every position that holds a console line or a request to set the flag has a strictly
  earlier position holding the suppression, and running the effects sets the flag.
\<close>

theorem handleSubmit_preventDefault_first:
  "(\<exists>i j k. i < j \<and> j < k \<and> k < length (handleSubmit r) \<and>
      handleSubmit r ! i = PreventDefault \<and>
      handleSubmit r ! j = ConsoleLog ''Form submitted with:'' (formData r) \<and>
      handleSubmit r ! k = SetIsRegistered True) \<and>
   (\<forall>j msg obj b. j < length (handleSubmit r) \<longrightarrow>
      (handleSubmit r ! j = ConsoleLog msg obj \<or> handleSubmit r ! j = SetIsRegistered b) \<longrightarrow>
      (\<exists>i < j. handleSubmit r ! i = PreventDefault)) \<and>
   isRegistered (run_effects (handleSubmit r) s)"
proof (intro conjI allI impI)
  have "(0::nat) < 1 \<and> (1::nat) < 2 \<and> 2 < length (handleSubmit r) \<and>
      handleSubmit r ! 0 = PreventDefault \<and>
      handleSubmit r ! 1 = ConsoleLog ''Form submitted with:'' (formData r) \<and>
      handleSubmit r ! 2 = SetIsRegistered True"
    by (simp add: handleSubmit_def)
  then show "\<exists>i j k. i < j \<and> j < k \<and> k < length (handleSubmit r) \<and>
      handleSubmit r ! i = PreventDefault \<and>
      handleSubmit r ! j = ConsoleLog ''Form submitted with:'' (formData r) \<and>
      handleSubmit r ! k = SetIsRegistered True"
    by blast
next
  fix j msg obj b
  assume j: "j < length (handleSubmit r)"
    and later: "handleSubmit r ! j = ConsoleLog msg obj \<or>
                handleSubmit r ! j = SetIsRegistered b"
  from j have "j = 0 \<or> j = 1 \<or> j = 2"
    by (auto simp add: handleSubmit_def)
  with later have "0 < j"
    by (auto simp add: handleSubmit_def)
  moreover have "handleSubmit r ! 0 = PreventDefault"
    by (simp add: handleSubmit_def)
  ultimately show "\<exists>i < j. handleSubmit r ! i = PreventDefault"
    by blast
next
  show "isRegistered (run_effects (handleSubmit r) s)"
    by (simp add: run_handleSubmit)
qed

theorem handleSubmit_preventDefault_first_witness:
  "(\<exists>i j k. i < j \<and> j < k \<and> k < length (handleSubmit initial_state) \<and>
      handleSubmit initial_state ! i = PreventDefault \<and>
      handleSubmit initial_state ! j = ConsoleLog ''Form submitted with:'' initial_formData \<and>
      handleSubmit initial_state ! k = SetIsRegistered True) \<and>
   (\<exists>i < 1. handleSubmit initial_state ! i = PreventDefault) \<and>
   (\<exists>i < 2. handleSubmit initial_state ! i = PreventDefault) \<and>
   handleSubmit initial_state ! 1 = ConsoleLog ''Form submitted with:'' initial_formData \<and>
   handleSubmit initial_state ! 2 = SetIsRegistered True"
proof -
  note first = handleSubmit_preventDefault_first [of initial_state initial_state]
  have fd: "formData initial_state = initial_formData"
    by (simp add: initial_state_def)
  have order: "\<exists>i j k. i < j \<and> j < k \<and> k < length (handleSubmit initial_state) \<and>
      handleSubmit initial_state ! i = PreventDefault \<and>
      handleSubmit initial_state ! j = ConsoleLog ''Form submitted with:'' initial_formData \<and>
      handleSubmit initial_state ! k = SetIsRegistered True"
    using first [THEN conjunct1] by (simp only: fd)
  have len1: "1 < length (handleSubmit initial_state)"
    and len2: "2 < length (handleSubmit initial_state)"
    by (simp_all add: handleSubmit_def)
  have log: "handleSubmit initial_state ! 1 =
             ConsoleLog ''Form submitted with:'' initial_formData"
    by (simp add: handleSubmit_def initial_state_def)
  have reg: "handleSubmit initial_state ! 2 = SetIsRegistered True"
    by (simp add: handleSubmit_def)
  from log have later1: "handleSubmit initial_state ! 1 =
                           ConsoleLog ''Form submitted with:'' initial_formData \<or>
                         handleSubmit initial_state ! 1 = SetIsRegistered True"
    by (rule disjI1)
  from reg have later2: "handleSubmit initial_state ! 2 = ConsoleLog [] Map.empty \<or>
                         handleSubmit initial_state ! 2 = SetIsRegistered True"
    by (rule disjI2)
  have before_log: "\<exists>i < 1. handleSubmit initial_state ! i = PreventDefault"
    by (rule first [THEN conjunct2, THEN conjunct1, rule_format, OF len1 later1])
  have before_reg: "\<exists>i < 2. handleSubmit initial_state ! i = PreventDefault"
    by (rule first [THEN conjunct2, THEN conjunct1, rule_format, OF len2 later2])
  from order before_log before_reg log reg show ?thesis
    by (intro conjI)
qed

text \<open>
  Claim C9. The view is determined by the session state: two states with the same flag
  and the same \<open>username\<close>, \<open>email\<close> and \<open>password\<close> have the same view, whatever else
  \<open>formData\<close> may hold.
\<close>

theorem RegisterForm_deterministic:
  assumes "isRegistered s1 = isRegistered s2"
    and "\<forall>f \<in> {''username'', ''email'', ''password''}. formData s1 f = formData s2 f"
  shows "RegisterForm s1 = RegisterForm s2"
  using assms by (simp add: RegisterForm_def js_get_def)

theorem RegisterForm_deterministic_witness:
  "RegisterForm (initial_state\<lparr>formData := initial_formData(''phone'' \<mapsto> ''555'')\<rparr>) =
   RegisterForm initial_state"
  using RegisterForm_deterministic
    [of "initial_state\<lparr>formData := initial_formData(''phone'' \<mapsto> ''555'')\<rparr>" initial_state]
  by (simp add: initial_state_def)

section \<open>Separation of the two pieces of state\<close>

text \<open>
  Claim C10. The change handler never touches the flag, for any name and value, and the
  submit handler never touches \<open>formData\<close>, on its first run as on any later one.
\<close>

theorem handlers_touch_own_state:
  "isRegistered (run_effects (handleChange t) s) = isRegistered s \<and>
   formData (run_effects (handleSubmit r) s) = formData s \<and>
   isRegistered (dispatch s (Change t)) = isRegistered s \<and>
   formData (dispatch s Submit) = formData s"
  by (simp add: run_handleChange run_handleSubmit)

end
